theory Spec2Isabelle
  imports Main "HOL-Library.Word"
begin

section \<open>Data model\<close>

text \<open>
  The decryption pipeline of \<^verbatim>\<open>pgp/data_decrypt.go\<close>: \<^verbatim>\<open>getPrivateKeyPacket\<close> loads an
  armored private key, \<^verbatim>\<open>decrypt\<close> turns a ciphertext and an encoding tag into a
  plaintext buffer or an error.

  A Go \<^verbatim>\<open>[]byte\<close> is a list of characters (a \<open>char\<close> is a byte). A Go \<^verbatim>\<open>error\<close> is
  represented by its message, the string that \<^verbatim>\<open>err.Error()\<close> returns; \<^verbatim>\<open>nil\<close> is
  \<open>None\<close> where the source returns a pair.
\<close>

type_synonym bytes = string
type_synonym error = string

text \<open>
  An \<^verbatim>\<open>io.Reader\<close>, seen by what draining it gives: the bytes it delivers, and the
  error that ends the stream when it does not end in a clean end of file. Readers are
  lazy in Go: a fault sits in the reader until somebody reads that far.
\<close>

record reader =
  data :: bytes
  fault :: "error option"

text \<open>\<^verbatim>\<open>bytes.NewReader(b)\<close>: a reader over a buffer, which cannot fail.\<close>

definition bytes_NewReader :: "bytes \<Rightarrow> reader" where
  "bytes_NewReader b = \<lparr>data = b, fault = None\<rparr>"

text \<open>
  \<^verbatim>\<open>ioutil.ReadAll(r)\<close> reads until an error or end of file and returns the data it
  read together with the error; a clean end of file is reported as \<^verbatim>\<open>err == nil\<close>.
\<close>

definition ioutil_ReadAll :: "reader \<Rightarrow> bytes \<times> error option" where
  "ioutil_ReadAll r = (data r, fault r)"

text \<open>\<^verbatim>\<open>fmt.Errorf(prefix + "%v", err)\<close> and \<^verbatim>\<open>errors.New(msg)\<close>.\<close>

definition fmt_Errorf :: "string \<Rightarrow> error \<Rightarrow> error" where
  "fmt_Errorf prefix err = prefix @ err"

definition errors_New :: "string \<Rightarrow> error" where
  "errors_New msg = msg"

text \<open>\<^verbatim>\<open>armor.Block\<close>: the type label of an armored block and the reader of its body.\<close>

record block =
  Type :: string
  Body :: reader

text \<open>
  \<^verbatim>\<open>packet.NewReader(r)\<close> wraps a reader into a packet reader. Reading an entity
  consumes packets from it, so the library call below returns the packet reader it
  leaves behind.
\<close>

datatype packet_reader = PacketReader reader

definition packet_NewReader :: "reader \<Rightarrow> packet_reader" where
  "packet_NewReader r = PacketReader r"

text \<open>
  \<^verbatim>\<open>openpgp.MessageDetails\<close>: what reading a message gives back. The body is a reader
  of the decrypted, not yet verified contents; the signature fields hold what the
  library found out about a signature, if the message has one.
\<close>

record message_details =
  IsEncrypted :: bool
  IsSigned :: bool
  SignedByKeyId :: "64 word"
  UnverifiedBody :: reader
  SignatureError :: "error option"

text \<open>The types of the last two arguments of \<^verbatim>\<open>openpgp.ReadMessage\<close>.\<close>

typedecl PromptFunction
typedecl Config

text \<open>
  The functions of the imported packages (\<^verbatim>\<open>x/crypto/openpgp\<close>, its \<^verbatim>\<open>armor\<close>
  package, \<^verbatim>\<open>compress/gzip\<close>) are not part of the program. They are parameters of
  the model: every theorem below holds for whatever these functions compute. \<open>'k\<close> is
  the type of a key entity (\<^verbatim>\<open>*openpgp.Entity\<close>). A call that returns a value or an
  error returns a sum, \<open>Inl\<close> the error.
\<close>

record 'k library =
  armor_Decode :: "reader \<Rightarrow> error + block"
  openpgp_ReadEntity :: "packet_reader \<Rightarrow> (error + 'k) \<times> packet_reader"
  openpgp_ReadMessage ::
    "reader \<Rightarrow> 'k list \<Rightarrow> PromptFunction option \<Rightarrow> Config option \<Rightarrow> error + message_details"
  gzip_NewReader :: "reader \<Rightarrow> error + reader"

text \<open>
  Modelled from the spec: the constant \<^verbatim>\<open>openpgp.PrivateKeyType\<close> of the imported
  package, the type label of a private key block, which the spec's data model gives
  as "PGP PRIVATE KEY BLOCK". No theorem below depends on its value.
\<close>

definition PrivateKeyType :: string where
  "PrivateKeyType = ''PGP PRIVATE KEY BLOCK''"

section \<open>The key loader\<close>

text \<open>
  \<^verbatim>\<open>getPrivateKeyPacket\<close>: decode the armor, check the type label, read one entity
  from the packets of the body. The errors of the two library calls are returned as
  they are; the packet reader that \<^verbatim>\<open>ReadEntity\<close> leaves behind is dropped.
\<close>

definition getPrivateKeyPacket :: "'k library \<Rightarrow> bytes \<Rightarrow> error + 'k" where
  "getPrivateKeyPacket lib privateKey =
     (let privateKeyReader = bytes_NewReader privateKey in
      case armor_Decode lib privateKeyReader of
        Inl err \<Rightarrow> Inl err
      | Inr block \<Rightarrow>
          if Type block \<noteq> PrivateKeyType then Inl (errors_New ''Invalid private key data'')
          else
            let packetReader = packet_NewReader (Body block) in
            fst (openpgp_ReadEntity lib packetReader))"

section \<open>The decryptor\<close>

text \<open>
  What \<^verbatim>\<open>decrypt\<close> does to the gzip reader is its only effect besides its result:
  the reader is opened by a successful \<^verbatim>\<open>gzip.NewReader\<close>, drained by
  \<^verbatim>\<open>ioutil.ReadAll\<close> and closed by the deferred \<^verbatim>\<open>Close\<close>.
\<close>

datatype event = GzipOpen | GzipDrain | GzipClose

text \<open>
  A \<^verbatim>\<open>return\<close> statement: the calls deferred so far run, last deferred first, after
  the events that have already happened.
\<close>

definition return_stmt :: "event list \<Rightarrow> event list \<Rightarrow> 'a \<Rightarrow> 'a \<times> event list" where
  "return_stmt happened deferred v = (v, happened @ deferred)"

text \<open>
  The first half of \<^verbatim>\<open>decrypt\<close> (lines 113 to 132): obtain the message reader, or
  return early. \<open>Inl\<close> carries the pair that an early \<^verbatim>\<open>return\<close> gives back.
\<close>

definition read_message ::
  "'k library \<Rightarrow> 'k list \<Rightarrow> bytes \<Rightarrow> string \<Rightarrow> (bytes \<times> error option) + message_details" where
  "read_message lib entityList encrypted encoding =
     (if encoding = ''armored'' then
        (case armor_Decode lib (bytes_NewReader encrypted) of
           Inl err \<Rightarrow> Inl ([], Some (fmt_Errorf ''Error decoding: '' err))
         | Inr block \<Rightarrow>
             if Type block \<noteq> ''Message'' then Inl ([], Some (errors_New ''Invalid message type''))
             else
               (case openpgp_ReadMessage lib (Body block) entityList None None of
                  Inl err \<Rightarrow> Inl ([], Some (fmt_Errorf ''Error reading message: '' err))
                | Inr messageReader \<Rightarrow> Inr messageReader))
      else
        (case openpgp_ReadMessage lib (bytes_NewReader encrypted) entityList None None of
           Inl err \<Rightarrow> Inl ([], Some (fmt_Errorf ''Error reading message: '' err))
         | Inr messageReader \<Rightarrow> Inr messageReader))"

text \<open>
  \<^verbatim>\<open>decrypt\<close>. The result is the pair the Go function returns, the buffer and the
  error, together with the events on the gzip reader.
\<close>

definition decrypt ::
  "'k library \<Rightarrow> 'k \<Rightarrow> bytes \<Rightarrow> string \<Rightarrow> (bytes \<times> error option) \<times> event list" where
  "decrypt lib entity encrypted encoding =
     (let entityList = [entity] in
      case read_message lib entityList encrypted encoding of
        Inl early \<Rightarrow> return_stmt [] [] early
      | Inr messageReader \<Rightarrow>
          (case ioutil_ReadAll (UnverifiedBody messageReader) of
             (read, Some err) \<Rightarrow>
               return_stmt [] [] ([], Some (fmt_Errorf ''Error reading unverified body: '' err))
           | (read, None) \<Rightarrow>
               if encoding = ''armored'' then
                 (case gzip_NewReader lib (bytes_NewReader read) of
                    Inl err \<Rightarrow>
                      return_stmt [] []
                        ([], Some (fmt_Errorf ''Error initializing gzip reader: '' err))
                  | Inr uncompressed \<Rightarrow>
                      let opened = [GzipOpen];
                          deferred = [GzipClose];
                          drained = opened @ [GzipDrain]
                      in
                      (case ioutil_ReadAll uncompressed of
                         (out, Some err) \<Rightarrow> return_stmt drained deferred ([], Some err)
                       | (out, None) \<Rightarrow> return_stmt drained deferred (out, None)))
               else
                 (case ioutil_ReadAll (bytes_NewReader read) of
                    (out, Some err) \<Rightarrow> return_stmt [] [] ([], Some err)
                  | (out, None) \<Rightarrow> return_stmt [] [] (out, None))))"

text \<open>The two values Go returns, and the effects.\<close>

definition plaintext :: "(bytes \<times> error option) \<times> event list \<Rightarrow> bytes" where
  "plaintext res = fst (fst res)"

definition failure :: "(bytes \<times> error option) \<times> event list \<Rightarrow> error option" where
  "failure res = snd (fst res)"

definition effects :: "(bytes \<times> error option) \<times> event list \<Rightarrow> event list" where
  "effects res = snd res"

text \<open>
  The decompression the spec describes for the armored mode, in its own words: treat
  the bytes as a gzip stream, initialise a decompression reader over them and drain
  it fully. It is what the result of \<open>decrypt\<close> is compared with.
\<close>

definition gunzip :: "'k library \<Rightarrow> bytes \<Rightarrow> error + bytes" where
  "gunzip lib b =
     (case gzip_NewReader lib (bytes_NewReader b) of
        Inl err \<Rightarrow> Inl err
      | Inr z \<Rightarrow> (case fault z of None \<Rightarrow> Inr (data z) | Some err \<Rightarrow> Inl err))"

section \<open>A concrete library\<close>

text \<open>
  A small instance of the library interface, with string formats in place of armor,
  packets and gzip, on which the functions above can be evaluated. It is not a model
  of the imported packages, and no theorem about the program assumes it.
  \<^item> an armored block is \<^verbatim>\<open>label|body\<close>; without the separator there is no block;
  \<^item> a key packet stream is a sequence of key names, each ended by \<^verbatim>\<open>;\<close>;
  \<^item> a message is \<^verbatim>\<open>key:contents$\<close>; without the final \<^verbatim>\<open>$\<close> the contents are cut
    short, which shows when the body is read to its end;
  \<^item> a compressed stream is \<^verbatim>\<open>Z\<close>, the contents and a final \<^verbatim>\<open>z\<close>.
\<close>

definition demo_Decode :: "reader \<Rightarrow> error + block" where
  "demo_Decode r =
     (if CHR ''|'' \<in> set (data r) then
        Inr \<lparr>Type = takeWhile (\<lambda>c. c \<noteq> CHR ''|'') (data r),
             Body = \<lparr>data = tl (dropWhile (\<lambda>c. c \<noteq> CHR ''|'') (data r)), fault = fault r\<rparr>\<rparr>
      else Inl ''EOF'')"

fun demo_ReadEntity :: "packet_reader \<Rightarrow> (error + string) \<times> packet_reader" where
  "demo_ReadEntity (PacketReader r) =
     (if CHR '';'' \<in> set (data r) then
        (Inr (takeWhile (\<lambda>c. c \<noteq> CHR '';'') (data r)),
         PacketReader (r\<lparr>data := tl (dropWhile (\<lambda>c. c \<noteq> CHR '';'') (data r))\<rparr>))
      else (Inl ''openpgp: invalid argument: no keys found'', PacketReader r))"

definition demo_ReadMessage ::
  "reader \<Rightarrow> string list \<Rightarrow> PromptFunction option \<Rightarrow> Config option \<Rightarrow> error + message_details" where
  "demo_ReadMessage r keyring prompt config =
     (let payload = tl (dropWhile (\<lambda>c. c \<noteq> CHR '':'') (data r)) in
      if CHR '':'' \<notin> set (data r) then Inl ''EOF''
      else if takeWhile (\<lambda>c. c \<noteq> CHR '':'') (data r) \<notin> set keyring
        then Inl ''openpgp: incorrect key''
      else Inr \<lparr>IsEncrypted = True, IsSigned = False, SignedByKeyId = 0,
                UnverifiedBody =
                  (if payload \<noteq> [] \<and> last payload = CHR ''$''
                   then \<lparr>data = butlast payload, fault = None\<rparr>
                   else \<lparr>data = payload, fault = Some ''unexpected EOF''\<rparr>),
                SignatureError = None\<rparr>)"

definition demo_gzip :: "reader \<Rightarrow> error + reader" where
  "demo_gzip r =
     (case data r of
        [] \<Rightarrow> Inl ''EOF''
      | c # cs \<Rightarrow>
          if c \<noteq> CHR ''Z'' then Inl ''gzip: invalid header''
          else if cs \<noteq> [] \<and> last cs = CHR ''z'' then Inr \<lparr>data = butlast cs, fault = None\<rparr>
          else Inr \<lparr>data = cs, fault = Some ''unexpected EOF''\<rparr>)"

definition demo_lib :: "string library" where
  "demo_lib =
     \<lparr>armor_Decode = demo_Decode, openpgp_ReadEntity = demo_ReadEntity,
      openpgp_ReadMessage = demo_ReadMessage, gzip_NewReader = demo_gzip\<rparr>"












section \<open>Properties\<close>

lemmas go_defs = Let_def bytes_NewReader_def ioutil_ReadAll_def fmt_Errorf_def errors_New_def
  return_stmt_def packet_NewReader_def

lemmas demo_defs = demo_lib_def demo_Decode_def demo_ReadMessage_def demo_gzip_def

subsection \<open>Compression asymmetry\<close>

text \<open>
  C1. Once the message has been read and its unverified body drained without error
  into \<open>body\<close>: under the encoding \<^verbatim>\<open>armored\<close> the plaintext returned is the gzip
  decompression of \<open>body\<close> (and when that decompression fails, \<open>decrypt\<close> fails with an
  empty buffer); under any other encoding the plaintext returned is \<open>body\<close> itself,
  whatever the gzip functions of the library would make of it.
\<close>

theorem decrypt_compression_asymmetry:
  "(armor_Decode lib (bytes_NewReader encrypted) = Inr blk \<and> Type blk = ''Message'' \<and>
    openpgp_ReadMessage lib (Body blk) [entity] None None = Inr md \<and>
    ioutil_ReadAll (UnverifiedBody md) = (body, None) \<longrightarrow>
      (case gunzip lib body of
         Inr out \<Rightarrow> fst (decrypt lib entity encrypted ''armored'') = (out, None)
       | Inl err \<Rightarrow> plaintext (decrypt lib entity encrypted ''armored'') = [] \<and>
                   failure (decrypt lib entity encrypted ''armored'') \<noteq> None))
   \<and>
   (encoding \<noteq> ''armored'' \<and>
    openpgp_ReadMessage lib (bytes_NewReader encrypted) [entity] None None = Inr md' \<and>
    ioutil_ReadAll (UnverifiedBody md') = (body', None) \<longrightarrow>
      decrypt lib entity encrypted encoding = ((body', None), []))"
  by (auto simp: decrypt_def read_message_def gunzip_def plaintext_def failure_def go_defs
      split: sum.splits option.splits)

theorem decrypt_compression_asymmetry_witness:
  "armor_Decode demo_lib (bytes_NewReader ''Message|k1:Zhello worldz$'')
     = Inr \<lparr>Type = ''Message'', Body = bytes_NewReader ''k1:Zhello worldz$''\<rparr> \<and>
   openpgp_ReadMessage demo_lib (bytes_NewReader ''k1:Zhello worldz$'') [''k1''] None None
     = Inr \<lparr>IsEncrypted = True, IsSigned = False, SignedByKeyId = 0,
            UnverifiedBody = bytes_NewReader ''Zhello worldz'', SignatureError = None\<rparr> \<and>
   ioutil_ReadAll (bytes_NewReader ''Zhello worldz'') = (''Zhello worldz'', None) \<and>
   gunzip demo_lib ''Zhello worldz'' = Inr ''hello world'' \<and>
   fst (decrypt demo_lib ''k1'' ''Message|k1:Zhello worldz$'' ''armored'') = (''hello world'', None) \<and>
   ''base64'' \<noteq> ''armored'' \<and>
   decrypt demo_lib ''k1'' ''k1:Zhello worldz$'' ''base64'' = ((''Zhello worldz'', None), [])"
  using decrypt_compression_asymmetry
    [where lib = demo_lib and encrypted = "''Message|k1:Zhello worldz$''"
       and blk = "\<lparr>Type = ''Message'', Body = bytes_NewReader ''k1:Zhello worldz$''\<rparr>"
       and entity = "''k1''"
       and md = "\<lparr>IsEncrypted = True, IsSigned = False, SignedByKeyId = 0,
            UnverifiedBody = bytes_NewReader ''Zhello worldz'', SignatureError = None\<rparr>"
       and body = "''Zhello worldz''" and encoding = "''armored''"]
    decrypt_compression_asymmetry
    [where lib = demo_lib and encrypted = "''k1:Zhello worldz$''" and entity = "''k1''"
       and encoding = "''base64''"
       and md' = "\<lparr>IsEncrypted = True, IsSigned = False, SignedByKeyId = 0,
            UnverifiedBody = bytes_NewReader ''Zhello worldz'', SignatureError = None\<rparr>"
       and body' = "''Zhello worldz''"]
  by (simp add: demo_defs gunzip_def go_defs)

subsection \<open>Errors\<close>




text \<open>
  C3. Whenever \<open>decrypt\<close> returns an error, at whatever stage, the buffer returned with
  it is empty.
\<close>

theorem decrypt_error_atomicity:
  "failure (decrypt lib entity encrypted encoding) \<noteq> None \<Longrightarrow>
   plaintext (decrypt lib entity encrypted encoding) = []"
  by (auto simp: decrypt_def read_message_def plaintext_def failure_def go_defs
      split: sum.splits option.splits if_splits)

text \<open>
  One failing input for each stage: armor decoding, the type check, reading the
  message, draining the body (which had delivered part of its contents), opening the
  gzip reader, draining it (which had delivered part of its output).
\<close>

theorem decrypt_error_atomicity_witness:
  "failure (decrypt demo_lib ''k1'' ''no armor here'' ''armored'') = Some ''Error decoding: EOF'' \<and>
   plaintext (decrypt demo_lib ''k1'' ''no armor here'' ''armored'') = [] \<and>
   failure (decrypt demo_lib ''k1'' ''SIGNATURE|k1:Zhello worldz$'' ''armored'')
     = Some ''Invalid message type'' \<and>
   plaintext (decrypt demo_lib ''k1'' ''SIGNATURE|k1:Zhello worldz$'' ''armored'') = [] \<and>
   failure (decrypt demo_lib ''k2'' ''Message|k1:Zhello worldz$'' ''armored'')
     = Some ''Error reading message: openpgp: incorrect key'' \<and>
   plaintext (decrypt demo_lib ''k2'' ''Message|k1:Zhello worldz$'' ''armored'') = [] \<and>
   failure (decrypt demo_lib ''k1'' ''Message|k1:Zhello wor'' ''armored'')
     = Some ''Error reading unverified body: unexpected EOF'' \<and>
   plaintext (decrypt demo_lib ''k1'' ''Message|k1:Zhello wor'' ''armored'') = [] \<and>
   failure (decrypt demo_lib ''k1'' ''Message|k1:hello world$'' ''armored'')
     = Some ''Error initializing gzip reader: gzip: invalid header'' \<and>
   plaintext (decrypt demo_lib ''k1'' ''Message|k1:hello world$'' ''armored'') = [] \<and>
   failure (decrypt demo_lib ''k1'' ''Message|k1:Zhello wor$'' ''armored'') = Some ''unexpected EOF'' \<and>
   plaintext (decrypt demo_lib ''k1'' ''Message|k1:Zhello wor$'' ''armored'') = []"
  using decrypt_error_atomicity [of demo_lib "''k1''" "''no armor here''" "''armored''"]
    decrypt_error_atomicity [of demo_lib "''k1''" "''SIGNATURE|k1:Zhello worldz$''" "''armored''"]
    decrypt_error_atomicity [of demo_lib "''k2''" "''Message|k1:Zhello worldz$''" "''armored''"]
    decrypt_error_atomicity [of demo_lib "''k1''" "''Message|k1:Zhello wor''" "''armored''"]
    decrypt_error_atomicity [of demo_lib "''k1''" "''Message|k1:hello world$''" "''armored''"]
    decrypt_error_atomicity [of demo_lib "''k1''" "''Message|k1:Zhello wor$''" "''armored''"]
  by (simp add: decrypt_def read_message_def failure_def plaintext_def demo_defs go_defs)

text \<open>
  C4. An armored block whose type label is not the private key type makes
  \<open>getPrivateKeyPacket\<close> fail with "Invalid private key data" (the spec's
  InvalidKeyTypeError); an armored block whose type label is not "Message" makes
  \<open>decrypt\<close>, under the encoding \<^verbatim>\<open>armored\<close>, fail with "Invalid message type" (the
  spec's InvalidMessageTypeError).
\<close>

theorem type_label_checks:
  "(armor_Decode lib (bytes_NewReader privateKey) = Inr kblk \<and> Type kblk \<noteq> PrivateKeyType \<longrightarrow>
      getPrivateKeyPacket lib privateKey = Inl ''Invalid private key data'')
   \<and>
   (armor_Decode lib (bytes_NewReader encrypted) = Inr mblk \<and> Type mblk \<noteq> ''Message'' \<longrightarrow>
      decrypt lib entity encrypted ''armored'' = (([], Some ''Invalid message type''), []))"
  by (simp add: getPrivateKeyPacket_def decrypt_def read_message_def go_defs)

theorem type_label_checks_witness:
  "armor_Decode demo_lib (bytes_NewReader ''PGP PUBLIC KEY BLOCK|k1;'')
     = Inr \<lparr>Type = ''PGP PUBLIC KEY BLOCK'', Body = bytes_NewReader ''k1;''\<rparr> \<and>
   ''PGP PUBLIC KEY BLOCK'' \<noteq> PrivateKeyType \<and>
   getPrivateKeyPacket demo_lib ''PGP PUBLIC KEY BLOCK|k1;'' = Inl ''Invalid private key data'' \<and>
   ''PGP PUBLIC KEY BLOCK'' \<noteq> ''Message'' \<and>
   decrypt demo_lib ''k1'' ''PGP PUBLIC KEY BLOCK|k1;'' ''armored''
     = (([], Some ''Invalid message type''), [])"
  using type_label_checks
    [where lib = demo_lib and privateKey = "''PGP PUBLIC KEY BLOCK|k1;''"
       and kblk = "\<lparr>Type = ''PGP PUBLIC KEY BLOCK'', Body = bytes_NewReader ''k1;''\<rparr>"
       and encrypted = "''PGP PUBLIC KEY BLOCK|k1;''"
       and mblk = "\<lparr>Type = ''PGP PUBLIC KEY BLOCK'', Body = bytes_NewReader ''k1;''\<rparr>"
       and entity = "''k1''"]
  by (simp add: demo_defs go_defs PrivateKeyType_def)







subsection \<open>Signatures\<close>




subsection \<open>The gzip reader is released\<close>

text \<open>
  C8. Under the encoding \<^verbatim>\<open>armored\<close>, once the gzip reader has been opened, it is
  drained and then closed, exactly once, whether draining it succeeds or fails: the
  effects of \<open>decrypt\<close> are opening, draining and closing, in this order.
\<close>

theorem gzip_reader_closed_once:
  assumes "armor_Decode lib (bytes_NewReader encrypted) = Inr blk"
    and "Type blk = ''Message''"
    and "openpgp_ReadMessage lib (Body blk) [entity] None None = Inr md"
    and "ioutil_ReadAll (UnverifiedBody md) = (body, None)"
    and "gzip_NewReader lib (bytes_NewReader body) = Inr z"
  shows "effects (decrypt lib entity encrypted ''armored'') = [GzipOpen, GzipDrain, GzipClose] \<and>
         count_list (effects (decrypt lib entity encrypted ''armored'')) GzipClose = 1"
  using assms by (auto simp: decrypt_def read_message_def effects_def go_defs split: option.splits)

text \<open>A successful return, and a return with the error of the drain.\<close>

theorem gzip_reader_closed_once_witness:
  "gzip_NewReader demo_lib (bytes_NewReader ''Zhello worldz'')
     = Inr \<lparr>data = ''hello world'', fault = None\<rparr> \<and>
   failure (decrypt demo_lib ''k1'' ''Message|k1:Zhello worldz$'' ''armored'') = None \<and>
   effects (decrypt demo_lib ''k1'' ''Message|k1:Zhello worldz$'' ''armored'')
     = [GzipOpen, GzipDrain, GzipClose] \<and>
   count_list (effects (decrypt demo_lib ''k1'' ''Message|k1:Zhello worldz$'' ''armored'')) GzipClose = 1 \<and>
   gzip_NewReader demo_lib (bytes_NewReader ''Zhello wor'')
     = Inr \<lparr>data = ''hello wor'', fault = Some ''unexpected EOF''\<rparr> \<and>
   failure (decrypt demo_lib ''k1'' ''Message|k1:Zhello wor$'' ''armored'') = Some ''unexpected EOF'' \<and>
   effects (decrypt demo_lib ''k1'' ''Message|k1:Zhello wor$'' ''armored'')
     = [GzipOpen, GzipDrain, GzipClose] \<and>
   count_list (effects (decrypt demo_lib ''k1'' ''Message|k1:Zhello wor$'' ''armored'')) GzipClose = 1"
  using gzip_reader_closed_once
    [where lib = demo_lib and encrypted = "''Message|k1:Zhello worldz$''" and entity = "''k1''"
       and blk = "\<lparr>Type = ''Message'', Body = bytes_NewReader ''k1:Zhello worldz$''\<rparr>"
       and md = "\<lparr>IsEncrypted = True, IsSigned = False, SignedByKeyId = 0,
            UnverifiedBody = bytes_NewReader ''Zhello worldz'', SignatureError = None\<rparr>"
       and body = "''Zhello worldz''" and z = "\<lparr>data = ''hello world'', fault = None\<rparr>"]
    gzip_reader_closed_once
    [where lib = demo_lib and encrypted = "''Message|k1:Zhello wor$''" and entity = "''k1''"
       and blk = "\<lparr>Type = ''Message'', Body = bytes_NewReader ''k1:Zhello wor$''\<rparr>"
       and md = "\<lparr>IsEncrypted = True, IsSigned = False, SignedByKeyId = 0,
            UnverifiedBody = bytes_NewReader ''Zhello wor'', SignatureError = None\<rparr>"
       and body = "''Zhello wor''" and z = "\<lparr>data = ''hello wor'', fault = Some ''unexpected EOF''\<rparr>"]
  by (simp add: decrypt_def read_message_def failure_def effects_def demo_defs go_defs)

subsection \<open>The encoding argument\<close>

text \<open>
  C9. \<open>decrypt\<close> looks at the encoding only to compare it with \<^verbatim>\<open>armored\<close>: two
  encodings that compare alike give the same result. Every encoding other than
  \<^verbatim>\<open>armored\<close> takes the raw path: the result does not depend on the armor decoder or
  on the gzip functions, and it is the error of the message reader, the error of the
  body drain, or the drained body as it is, with no effect on any gzip reader.
\<close>

theorem encoding_only_armored_test:
  "((encoding = ''armored'') = (encoding' = ''armored'') \<longrightarrow>
      decrypt lib entity encrypted encoding = decrypt lib entity encrypted encoding')
   \<and>
   (encoding \<noteq> ''armored'' \<longrightarrow>
      decrypt (lib\<lparr>armor_Decode := d, gzip_NewReader := g\<rparr>) entity encrypted encoding
        = decrypt lib entity encrypted encoding \<and>
      decrypt lib entity encrypted encoding =
        (case openpgp_ReadMessage lib (bytes_NewReader encrypted) [entity] None None of
           Inl err \<Rightarrow> (([], Some (''Error reading message: '' @ err)), [])
         | Inr md \<Rightarrow>
             (case fault (UnverifiedBody md) of
                Some err \<Rightarrow> (([], Some (''Error reading unverified body: '' @ err)), [])
              | None \<Rightarrow> ((data (UnverifiedBody md), None), []))))"
  by (auto simp: decrypt_def read_message_def go_defs split: sum.splits option.splits)

theorem encoding_only_armored_test_witness:
  "(''base64'' = ''armored'') = (''rot13'' = ''armored'') \<and>
   decrypt demo_lib ''k1'' ''k1:Zhello worldz$'' ''base64''
     = decrypt demo_lib ''k1'' ''k1:Zhello worldz$'' ''rot13'' \<and>
   ''rot13'' \<noteq> ''armored'' \<and>
   decrypt (demo_lib\<lparr>armor_Decode := \<lambda>r. Inl ''no armor'', gzip_NewReader := \<lambda>r. Inl ''no gzip''\<rparr>)
       ''k1'' ''k1:Zhello worldz$'' ''rot13''
     = decrypt demo_lib ''k1'' ''k1:Zhello worldz$'' ''rot13'' \<and>
   decrypt demo_lib ''k1'' ''k1:Zhello worldz$'' ''rot13'' = ((''Zhello worldz'', None), [])"
  using encoding_only_armored_test
    [where lib = demo_lib and entity = "''k1''" and encrypted = "''k1:Zhello worldz$''"
       and encoding = "''base64''" and encoding' = "''rot13''"]
    encoding_only_armored_test
    [where lib = demo_lib and entity = "''k1''" and encrypted = "''k1:Zhello worldz$''"
       and encoding = "''rot13''" and encoding' = "''rot13''"
       and d = "\<lambda>r. Inl ''no armor''" and g = "\<lambda>r. Inl ''no gzip''"]
  by (simp add: demo_defs go_defs)

subsection \<open>One entity\<close>




end
